theory Spec2Isabelle
  imports
    Main
    "HOL-Library.Word"
    "HOL-Library.AList"
    "HOL-Library.List_Lexorder"
    "HOL-Library.Char_ord"
    "HOL-Library.Multiset"
begin

unbundle bit_operations_syntax

section \<open>Constants of comrot.go\<close>

text \<open>
  \<^verbatim>\<open>MaxInt = int(^uint(0) >> 1)\<close>, \<^verbatim>\<open>MB = 1 << (10 * 2)\<close>,
  \<^verbatim>\<open>TimeFmt = time.RFC3339\<close>. Go's \<^verbatim>\<open>int\<close> and \<^verbatim>\<open>uint\<close> are taken at 64 bits
  (a 64-bit platform); \<^verbatim>\<open>int64\<close> arithmetic wraps, which \<open>int64\<close> writes out.
\<close>

definition MaxInt :: int where
  "MaxInt = sint (drop_bit 1 (NOT (0 :: 64 word)))"

definition MB :: int where
  "MB = push_bit (10 * 2) 1"

definition TimeFmt :: string where
  "TimeFmt = ''2006-01-02T15:04:05Z07:00''"

definition DefaultMaxSize :: int where
  "DefaultMaxSize = 10 * MB"

definition DefaultMaxFiles :: int where
  "DefaultMaxFiles = MaxInt"

definition int64 :: "int \<Rightarrow> int" where
  "int64 x = signed_take_bit 63 x"

section \<open>Wall-clock times and the RFC 3339 layout\<close>

text \<open>
  A \<^verbatim>\<open>time.Time\<close> at the precision of the layout \<^verbatim>\<open>time.RFC3339\<close>: the civil
  fields the layout prints and the zone offset in minutes east of UTC. \<open>Format\<close> and
  \<open>Parse\<close> stand for \<^verbatim>\<open>t.Format(time.RFC3339)\<close> and
  \<^verbatim>\<open>time.Parse(time.RFC3339, s)\<close> of Go's library on times without fractional
  seconds and years of four digits: a zero offset prints as \<^verbatim>\<open>Z\<close> (20 characters),
  any other as \<^verbatim>\<open>+hh:mm\<close> or \<^verbatim>\<open>-hh:mm\<close> (25 characters).
\<close>

record gotime =
  tyear :: nat
  tmonth :: nat
  tday :: nat
  thour :: nat
  tmin :: nat
  tsec :: nat
  tzone :: int

definition leap_year :: "nat \<Rightarrow> bool" where
  "leap_year y = (y mod 4 = 0 \<and> (y mod 100 \<noteq> 0 \<or> y mod 400 = 0))"

definition days_in :: "nat \<Rightarrow> nat \<Rightarrow> nat" where
  "days_in y m =
     (if m = 2 then (if leap_year y then 29 else 28)
      else if m = 4 \<or> m = 6 \<or> m = 9 \<or> m = 11 then 30 else 31)"

definition valid_time :: "gotime \<Rightarrow> bool" where
  "valid_time t =
     (tyear t \<le> 9999 \<and> 1 \<le> tmonth t \<and> tmonth t \<le> 12 \<and>
      1 \<le> tday t \<and> tday t \<le> days_in (tyear t) (tmonth t) \<and>
      thour t < 24 \<and> tmin t < 60 \<and> tsec t < 60 \<and>
      - 1440 < tzone t \<and> tzone t < 1440)"

definition days_from_civil :: "int \<Rightarrow> int \<Rightarrow> int \<Rightarrow> int" where
  "days_from_civil y m d =
     (let y' = (if m \<le> 2 then y - 1 else y);
          era = y' div 400;
          yoe = y' - era * 400;
          doy = (153 * (if m > 2 then m - 3 else m + 9) + 2) div 5 + d - 1;
          doe = yoe * 365 + yoe div 4 - yoe div 100 + doy
      in era * 146097 + doe - 719468)"

definition unix :: "gotime \<Rightarrow> int" where
  "unix t =
     days_from_civil (int (tyear t)) (int (tmonth t)) (int (tday t)) * 86400
       + int (thour t) * 3600 + int (tmin t) * 60 + int (tsec t) - tzone t * 60"

definition After :: "gotime \<Rightarrow> gotime \<Rightarrow> bool" where
  "After t u = (unix t > unix u)"

definition digit :: "nat \<Rightarrow> char" where
  "digit d = char_of (48 + d)"

definition pad2 :: "nat \<Rightarrow> string" where
  "pad2 n = [digit (n div 10 mod 10), digit (n mod 10)]"

definition pad4 :: "nat \<Rightarrow> string" where
  "pad4 n = [digit (n div 1000 mod 10), digit (n div 100 mod 10),
             digit (n div 10 mod 10), digit (n mod 10)]"

definition zone_str :: "int \<Rightarrow> string" where
  "zone_str z =
     (if z = 0 then ''Z''
      else (if z < 0 then ''-'' else ''+'')
             @ pad2 (nat \<bar>z\<bar> div 60) @ '':'' @ pad2 (nat \<bar>z\<bar> mod 60))"

definition Format :: "gotime \<Rightarrow> string" where
  "Format t =
     pad4 (tyear t) @ ''-'' @ pad2 (tmonth t) @ ''-'' @ pad2 (tday t) @ ''T''
       @ pad2 (thour t) @ '':'' @ pad2 (tmin t) @ '':'' @ pad2 (tsec t)
       @ zone_str (tzone t)"

definition digit_val :: "char \<Rightarrow> nat option" where
  "digit_val c =
     (let n = (of_char c :: nat) in if 48 \<le> n \<and> n \<le> 57 then Some (n - 48) else None)"

fun num2 :: "string \<Rightarrow> nat option" where
  "num2 [a, b] =
     (case (digit_val a, digit_val b) of
        (Some x, Some y) \<Rightarrow> Some (10 * x + y)
      | _ \<Rightarrow> None)"
| "num2 _ = None"

fun num4 :: "string \<Rightarrow> nat option" where
  "num4 [a, b, c, d] =
     (case (num2 [a, b], num2 [c, d]) of
        (Some x, Some y) \<Rightarrow> Some (100 * x + y)
      | _ \<Rightarrow> None)"
| "num4 _ = None"

fun parse_zone :: "string \<Rightarrow> int option" where
  "parse_zone [z] = (if z = CHR ''Z'' then Some 0 else None)"
| "parse_zone [sg, h1, h2, c, m1, m2] =
     (if (sg = CHR ''+'' \<or> sg = CHR ''-'') \<and> c = CHR '':'' then
        (case (num2 [h1, h2], num2 [m1, m2]) of
           (Some hh, Some mm) \<Rightarrow>
             (if hh < 24 \<and> mm < 60
              then Some ((if sg = CHR ''-'' then - 1 else 1) * int (hh * 60 + mm))
              else None)
         | _ \<Rightarrow> None)
      else None)"
| "parse_zone _ = None"

definition Parse :: "string \<Rightarrow> gotime option" where
  "Parse s =
     (if length s < 20 then None
      else if s ! 4 \<noteq> CHR ''-'' \<or> s ! 7 \<noteq> CHR ''-'' \<or> s ! 10 \<noteq> CHR ''T''
              \<or> s ! 13 \<noteq> CHR '':'' \<or> s ! 16 \<noteq> CHR '':'' then None
      else
        (case (num4 (take 4 s), num2 (take 2 (drop 5 s)), num2 (take 2 (drop 8 s)),
               num2 (take 2 (drop 11 s)), num2 (take 2 (drop 14 s)),
               num2 (take 2 (drop 17 s)), parse_zone (drop 19 s)) of
           (Some y, Some mo, Some d, Some h, Some mi, Some sc, Some z) \<Rightarrow>
             (let t = \<lparr>tyear = y, tmonth = mo, tday = d, thour = h, tmin = mi,
                       tsec = sc, tzone = z\<rparr>
              in if valid_time t then Some t else None)
         | _ \<Rightarrow> None))"

section \<open>Paths\<close>

text \<open>
  \<^verbatim>\<open>filepath.Base\<close> on a clean path that does not end in a separator: the part
  after the last \<^verbatim>\<open>/\<close>.
\<close>

definition Base :: "string \<Rightarrow> string" where
  "Base p = rev (takeWhile (\<lambda>c. c \<noteq> CHR ''/'') (rev p))"

section \<open>The directory of the log file\<close>

text \<open>
  The byte-level file primitives are collaborators of the writer. They are modelled on
  one directory, \<^verbatim>\<open>filepath.Dir(w.filename)\<close>: \<open>dir\<close> maps an entry name to a
  regular file (permission bits and bytes) or a subdirectory, and a path names the entry
  \<open>Base\<close> of it. \<open>handles\<close> are the open \<^verbatim>\<open>*os.File\<close> values: a descriptor and
  the entry it writes to (\<open>None\<close> once that file is unlinked); a handle follows its file
  through a rename. \<open>now\<close> is what \<^verbatim>\<open>time.Now()\<close> returns. \<open>faults\<close> says
  which primitive the environment makes fail, and with which error; \<open>short_write\<close>
  bounds how many bytes a \<^verbatim>\<open>Write\<close> persists before it fails. \<open>gzip\<close> is the
  encoder of \<^verbatim>\<open>compress/gzip\<close>. \<^verbatim>\<open>os.Stat\<close> either finds the entry or reports
  that it does not exist.
\<close>

datatype error = ErrInvalid | ErrClosed | ErrNotExist | ErrIsDir | OSError nat

datatype node = File (Mode: nat) (Data: string) | Directory

datatype prim =
  PCreate | POpenFile | PClose | PRename | POpen | PRead | PWriteFile | PRemove | PReadDir

record world =
  dir :: "(string \<times> node) list"
  handles :: "(nat \<times> string option) list"
  next_fd :: nat
  now :: gotime
  faults :: "prim \<Rightarrow> error option"
  short_write :: "(nat \<times> error) option"
  gzip :: "string \<Rightarrow> string"

datatype 'a outcome = Panic | Done 'a

type_synonym fileinfo = "string \<times> bool"

definition Name :: "fileinfo \<Rightarrow> string" where
  "Name f = fst f"

definition IsDir :: "fileinfo \<Rightarrow> bool" where
  "IsDir f = snd f"

definition os_Stat :: "string \<Rightarrow> world \<Rightarrow> node option" where
  "os_Stat p s = map_of (dir s) (Base p)"

fun Size :: "node \<Rightarrow> int" where
  "Size (File m d) = int (length d)"
| "Size Directory = 0"

definition new_handle :: "string \<Rightarrow> world \<Rightarrow> nat \<times> world" where
  "new_handle n s =
     (next_fd s,
      s\<lparr>handles := handles s @ [(next_fd s, Some n)], next_fd := Suc (next_fd s)\<rparr>)"

text \<open>\<^verbatim>\<open>os.Create\<close>: create with mode 0666 or truncate, and open.\<close>

definition os_Create :: "string \<Rightarrow> world \<Rightarrow> (error + nat) \<times> world" where
  "os_Create p s =
     (case faults s PCreate of
        Some e \<Rightarrow> (Inl e, s)
      | None \<Rightarrow>
          (case map_of (dir s) (Base p) of
             Some Directory \<Rightarrow> (Inl ErrIsDir, s)
           | Some (File m d) \<Rightarrow>
               (let (fd, s') = new_handle (Base p)
                                 (s\<lparr>dir := AList.update (Base p) (File m []) (dir s)\<rparr>)
                in (Inr fd, s'))
           | None \<Rightarrow>
               (let (fd, s') = new_handle (Base p)
                                 (s\<lparr>dir := AList.update (Base p) (File 438 []) (dir s)\<rparr>)
                in (Inr fd, s'))))"

text \<open>\<^verbatim>\<open>os.OpenFile(p, os.O_APPEND|os.O_WRONLY, 0644)\<close>.\<close>

definition os_OpenFile :: "string \<Rightarrow> world \<Rightarrow> (error + nat) \<times> world" where
  "os_OpenFile p s =
     (case faults s POpenFile of
        Some e \<Rightarrow> (Inl e, s)
      | None \<Rightarrow>
          (case map_of (dir s) (Base p) of
             None \<Rightarrow> (Inl ErrNotExist, s)
           | Some Directory \<Rightarrow> (Inl ErrIsDir, s)
           | Some (File m d) \<Rightarrow>
               (let (fd, s') = new_handle (Base p) s in (Inr fd, s'))))"

text \<open>
  \<^verbatim>\<open>(*os.File).Close\<close>: on a nil receiver it returns \<^verbatim>\<open>os.ErrInvalid\<close>; a
  descriptor is released also when the system call reports an error.
\<close>

definition file_Close :: "nat option \<Rightarrow> world \<Rightarrow> error option \<times> world" where
  "file_Close f s =
     (case f of
        None \<Rightarrow> (Some ErrInvalid, s)
      | Some fd \<Rightarrow>
          (case map_of (handles s) fd of
             None \<Rightarrow> (Some ErrClosed, s)
           | Some tgt \<Rightarrow> (faults s PClose, s\<lparr>handles := AList.delete fd (handles s)\<rparr>)))"

definition append_to :: "string option \<Rightarrow> string \<Rightarrow> world \<Rightarrow> world" where
  "append_to tgt bs s =
     (case tgt of
        None \<Rightarrow> s
      | Some n \<Rightarrow>
          (case map_of (dir s) n of
             Some (File m d) \<Rightarrow> s\<lparr>dir := AList.update n (File m (d @ bs)) (dir s)\<rparr>
           | _ \<Rightarrow> s))"

text \<open>
  \<^verbatim>\<open>(*os.File).Write\<close>: \<^verbatim>\<open>os.ErrInvalid\<close> on a nil receiver. Every handle the
  writer writes through is opened with \<^verbatim>\<open>O_APPEND\<close> or is the only writer of a file
  it created, so the bytes land at the end of the file.
\<close>

definition file_Write :: "nat option \<Rightarrow> string \<Rightarrow> world \<Rightarrow> nat \<times> error option \<times> world" where
  "file_Write f out s =
     (case f of
        None \<Rightarrow> (0, Some ErrInvalid, s)
      | Some fd \<Rightarrow>
          (case map_of (handles s) fd of
             None \<Rightarrow> (0, Some ErrClosed, s)
           | Some tgt \<Rightarrow>
               (case short_write s of
                  None \<Rightarrow> (length out, None, append_to tgt out s)
                | Some (k, e) \<Rightarrow>
                    (if length out \<le> k then (length out, None, append_to tgt out s)
                     else (k, Some e, append_to tgt (take k out) s)))))"

definition retarget :: "string \<Rightarrow> string \<Rightarrow> nat \<times> string option \<Rightarrow> nat \<times> string option" where
  "retarget old new h =
     (fst h, if snd h = Some old then Some new
             else if snd h = Some new then None else snd h)"

text \<open>\<^verbatim>\<open>os.Rename\<close>: a file at the new name is replaced.\<close>

definition os_Rename :: "string \<Rightarrow> string \<Rightarrow> world \<Rightarrow> error option \<times> world" where
  "os_Rename old new s =
     (case faults s PRename of
        Some e \<Rightarrow> (Some e, s)
      | None \<Rightarrow>
          (case map_of (dir s) (Base old) of
             None \<Rightarrow> (Some ErrNotExist, s)
           | Some nd \<Rightarrow>
               (if map_of (dir s) (Base new) = Some Directory then (Some ErrIsDir, s)
                else (None,
                      s\<lparr>dir := AList.update (Base new) nd (AList.delete (Base old) (dir s)),
                        handles := map (retarget (Base old) (Base new)) (handles s)\<rparr>))))"

definition unlink :: "string \<Rightarrow> nat \<times> string option \<Rightarrow> nat \<times> string option" where
  "unlink n h = (fst h, if snd h = Some n then None else snd h)"

definition remove_entry :: "string \<Rightarrow> world \<Rightarrow> error option \<times> world" where
  "remove_entry n s =
     (case faults s PRemove of
        Some e \<Rightarrow> (Some e, s)
      | None \<Rightarrow>
          (case map_of (dir s) n of
             None \<Rightarrow> (Some ErrNotExist, s)
           | Some nd \<Rightarrow>
               (None, s\<lparr>dir := AList.delete n (dir s),
                        handles := map (unlink n) (handles s)\<rparr>)))"

definition os_Remove :: "string \<Rightarrow> world \<Rightarrow> error option \<times> world" where
  "os_Remove p s = remove_entry (Base p) s"

text \<open>\<^verbatim>\<open>ioutil.ReadDir\<close> of the directory: its entries, sorted by name.\<close>

definition ioutil_ReadDir :: "world \<Rightarrow> error + fileinfo list" where
  "ioutil_ReadDir s =
     (case faults s PReadDir of
        Some e \<Rightarrow> Inl e
      | None \<Rightarrow> Inr (sort_key fst (map (\<lambda>(n, nd). (n, nd = Directory)) (dir s))))"

definition ioutil_WriteFile :: "string \<Rightarrow> string \<Rightarrow> nat \<Rightarrow> world \<Rightarrow> error option \<times> world" where
  "ioutil_WriteFile p bs perm s =
     (case faults s PWriteFile of
        Some e \<Rightarrow> (Some e, s)
      | None \<Rightarrow>
          (case map_of (dir s) (Base p) of
             Some Directory \<Rightarrow> (Some ErrIsDir, s)
           | Some (File m d) \<Rightarrow>
               (None, s\<lparr>dir := AList.update (Base p) (File m bs) (dir s)\<rparr>)
           | None \<Rightarrow>
               (None, s\<lparr>dir := AList.update (Base p) (File perm bs) (dir s)\<rparr>)))"

text \<open>
  \<^verbatim>\<open>os.Open\<close> for reading, and the one \<^verbatim>\<open>Read\<close> of \<open>compress\<close> into a buffer
  of the file's size, which brings the whole file. The read handle is closed by the
  \<^verbatim>\<open>defer\<close> on every path, so it is not entered in \<open>handles\<close>.
\<close>

definition os_Open :: "string \<Rightarrow> world \<Rightarrow> error + node" where
  "os_Open p s =
     (case faults s POpen of
        Some e \<Rightarrow> Inl e
      | None \<Rightarrow>
          (case map_of (dir s) (Base p) of
             None \<Rightarrow> Inl ErrNotExist
           | Some nd \<Rightarrow> Inr nd))"

definition reader_Read :: "node \<Rightarrow> world \<Rightarrow> error + string" where
  "reader_Read rawfile s =
     (case faults s PRead of
        Some e \<Rightarrow> Inl e
      | None \<Rightarrow>
          (case rawfile of
             Directory \<Rightarrow> Inl ErrIsDir
           | File m d \<Rightarrow> Inr d))"

section \<open>The writer\<close>

text \<open>
  \<^verbatim>\<open>RotateWriter\<close>; \<open>fp = None\<close> is the nil handle. The mutex is not modelled: the
  operations below are the bodies that run while it is held, one call at a time.
\<close>

record RotateWriter =
  filename :: string
  MaxSize :: int
  MaxFiles :: int
  Compress :: bool
  fp :: "nat option"
  fsize :: int

definition open' :: "RotateWriter \<Rightarrow> world \<Rightarrow> error option \<times> RotateWriter \<times> world" where
  "open' w s =
     (case os_Stat (filename w) s of
        None \<Rightarrow>
          (case os_Create (filename w) s of
             (Inl e, s') \<Rightarrow> (Some e, w\<lparr>fp := None, fsize := 0\<rparr>, s')
           | (Inr fd, s') \<Rightarrow> (None, w\<lparr>fp := Some fd, fsize := 0\<rparr>, s'))
      | Some info \<Rightarrow>
          (case os_OpenFile (filename w) s of
             (Inl e, s') \<Rightarrow> (Some e, w\<lparr>fp := None\<rparr>, s')
           | (Inr fd, s') \<Rightarrow> (None, w\<lparr>fp := Some fd, fsize := Size info\<rparr>, s')))"

definition Open :: "RotateWriter \<Rightarrow> world \<Rightarrow> error option \<times> RotateWriter \<times> world" where
  "Open w s = open' w s"

definition NewRotateWriter :: "string \<Rightarrow> world \<Rightarrow> RotateWriter option \<times> world" where
  "NewRotateWriter name s =
     (let w = \<lparr>filename = name, MaxSize = DefaultMaxSize, MaxFiles = DefaultMaxFiles,
                Compress = True, fp = None, fsize = 0\<rparr>
      in case Open w s of
           (Some err, w', s') \<Rightarrow> (None, s')
         | (None, w', s') \<Rightarrow> (Some w', s'))"

definition write' ::
  "RotateWriter \<Rightarrow> string \<Rightarrow> world \<Rightarrow> (nat \<times> error option) \<times> RotateWriter \<times> world" where
  "write' w out s =
     (case file_Write (fp w) out s of
        (n, err, s') \<Rightarrow> ((n, err), w\<lparr>fsize := int64 (fsize w + int n)\<rparr>, s'))"

text \<open>
  \<open>close'\<close> keeps the order of the source: \<^verbatim>\<open>w.fp = nil\<close> comes first, so the
  \<^verbatim>\<open>Close\<close> that follows is called on the field as it then is.
\<close>

definition close' :: "RotateWriter \<Rightarrow> world \<Rightarrow> error option \<times> RotateWriter \<times> world" where
  "close' w s =
     (if fp w = None then (None, w, s)
      else (let w1 = w\<lparr>fp := None\<rparr>
            in case file_Close (fp w1) s of (err, s') \<Rightarrow> (err, w1, s')))"

definition Close :: "RotateWriter \<Rightarrow> world \<Rightarrow> error option \<times> RotateWriter \<times> world" where
  "Close w s = close' w s"

text \<open>
  \<open>compress\<close>. The statement \<^verbatim>\<open>go os.Remove(source)\<close> is run where it stands: the
  schedule in which the goroutine finishes before the caller goes on.
\<close>

definition compress :: "RotateWriter \<Rightarrow> string \<Rightarrow> world \<Rightarrow> error option \<times> world" where
  "compress w source s =
     (case os_Open source s of
        Inl e \<Rightarrow> (Some e, s)
      | Inr rawfile \<Rightarrow>
          (case reader_Read rawfile s of
             Inl e \<Rightarrow> (Some e, s)
           | Inr rawbytes \<Rightarrow>
               (case ioutil_WriteFile (source @ ''.gz'') (gzip s rawbytes) (Mode rawfile) s of
                  (Some e, s1) \<Rightarrow> (Some e, s1)
                | (None, s1) \<Rightarrow> (None, snd (os_Remove source s1)))))"

subsection \<open>The retention sweep\<close>

type_synonym fragInfo = "gotime \<times> fileinfo"

definition byTime_Less :: "fragInfo \<Rightarrow> fragInfo \<Rightarrow> bool" where
  "byTime_Less a b = After (fst a) (fst b)"

text \<open>
  \<^verbatim>\<open>sort.Sort(byTime(frags))\<close>, as an insertion sort on \<open>byTime_Less\<close>.
  \<^verbatim>\<open>sort.Sort\<close> promises no order between fragments of equal time.
\<close>

fun insert_frag :: "fragInfo \<Rightarrow> fragInfo list \<Rightarrow> fragInfo list" where
  "insert_frag x [] = [x]"
| "insert_frag x (y # ys) =
     (if byTime_Less y x then y # insert_frag x ys else x # y # ys)"

fun sort_byTime :: "fragInfo list \<Rightarrow> fragInfo list" where
  "sort_byTime [] = []"
| "sort_byTime (x # xs) = insert_frag x (sort_byTime xs)"

text \<open>
  The loop that collects the log fragments. The slice expression
  \<^verbatim>\<open>file[len(base)+1 : len(base)+1+len(TimeFmt)]\<close> panics when its upper bound is
  beyond the end of the name.
\<close>

fun collect :: "RotateWriter \<Rightarrow> fileinfo list \<Rightarrow> fragInfo list outcome" where
  "collect w [] = Done []"
| "collect w (f # files) =
     (if IsDir f then collect w files
      else if Name f = filename w then collect w files
      else
        (let base = Base (filename w); file = Name f;
             lo = length base + 1; hi = length base + 1 + length TimeFmt
         in if hi > length file then Panic
            else
              (case Parse (take (hi - lo) (drop lo file)) of
                 None \<Rightarrow> collect w files
               | Some t \<Rightarrow>
                   (case collect w files of
                      Panic \<Rightarrow> Panic
                    | Done frags \<Rightarrow> Done ((t, f) # frags)))))"

text \<open>
  The goroutine that removes the fragments past \<open>MaxFiles\<close>, run where it is started;
  \<^verbatim>\<open>filepath.Join(filepath.Dir(w.filename), f.Name())\<close> is the entry \<open>Name f\<close> of
  the directory. The error of each \<^verbatim>\<open>os.Remove\<close> is dropped.
\<close>

fun remove_frags :: "fragInfo list \<Rightarrow> world \<Rightarrow> world" where
  "remove_frags [] s = s"
| "remove_frags (f # fs) s = remove_frags fs (snd (remove_entry (Name (snd f)) s))"

definition drain :: "RotateWriter \<Rightarrow> world \<Rightarrow> world outcome" where
  "drain w s =
     (if MaxFiles w = MaxInt then Done s
      else
        (case ioutil_ReadDir s of
           Inl e \<Rightarrow> Done s
         | Inr files \<Rightarrow>
             (case collect w files of
                Panic \<Rightarrow> Panic
              | Done frags0 \<Rightarrow>
                  (let frags = sort_byTime frags0
                   in if MaxFiles w < int (length frags) then
                        (if MaxFiles w < 0 then Panic
                         else Done (remove_frags (drop (nat (MaxFiles w)) frags) s))
                      else Done s))))"

subsection \<open>Rotation and writing\<close>

definition rotate' ::
  "RotateWriter \<Rightarrow> world \<Rightarrow> (error option \<times> RotateWriter \<times> world) outcome" where
  "rotate' w s =
     (case (if fp w \<noteq> None
            then (case file_Close (fp w) s of (e, s') \<Rightarrow> (e, w\<lparr>fp := None\<rparr>, s'))
            else (None, w, s)) of
        (Some e, w1, s1) \<Rightarrow> Done (Some e, w1, s1)
      | (None, w1, s1) \<Rightarrow>
          (case (case os_Stat (filename w1) s1 of
                   None \<Rightarrow> (None, s1)
                 | Some info \<Rightarrow>
                     (let rot = filename w1 @ ''.'' @ Format (now s1)
                      in case os_Rename (filename w1) rot s1 of
                           (Some e, s') \<Rightarrow> (Some e, s')
                         | (None, s') \<Rightarrow>
                             (if Compress w1 then compress w1 rot s' else (None, s')))) of
             (Some e, s2) \<Rightarrow> Done (Some e, w1, s2)
           | (None, s2) \<Rightarrow>
               (case drain w1 s2 of
                  Panic \<Rightarrow> Panic
                | Done s3 \<Rightarrow> Done (open' w1 s3))))"

definition Rotate ::
  "RotateWriter \<Rightarrow> world \<Rightarrow> (error option \<times> RotateWriter \<times> world) outcome" where
  "Rotate w s = rotate' w s"

text \<open>
  \<open>Write\<close>. The results of \<^verbatim>\<open>w.open()\<close> and \<^verbatim>\<open>w.rotate()\<close> are not read by the
  source; only the writer and the directory they leave go on.
\<close>

definition Write ::
  "RotateWriter \<Rightarrow> string \<Rightarrow> world \<Rightarrow> ((nat \<times> error option) \<times> RotateWriter \<times> world) outcome" where
  "Write w out s =
     (case (if fp w = None then snd (open' w s) else (w, s)) of
        (w1, s1) \<Rightarrow>
          (if int64 (fsize w1 + int (length out)) > MaxSize w1 then
             (case rotate' w1 s1 of
                Panic \<Rightarrow> Panic
              | Done (err, w2, s2) \<Rightarrow> Done (write' w2 out s2))
           else Done (write' w1 out s1)))"

section \<open>Example inputs\<close>

text \<open>
  The same instant in a zone at offset zero and in a zone two hours east, an encoder
  for the examples, an empty directory, and a directory that holds the log file and an
  unrelated file.
\<close>

definition at_utc :: gotime where
  "at_utc = \<lparr>tyear = 2024, tmonth = 5, tday = 6, thour = 7, tmin = 8, tsec = 9, tzone = 0\<rparr>"

definition at_cest :: gotime where
  "at_cest = \<lparr>tyear = 2024, tmonth = 5, tday = 6, thour = 9, tmin = 8, tsec = 9, tzone = 120\<rparr>"

definition stored :: "string \<Rightarrow> string" where
  "stored bs = CHR 0x1F # CHR 0x8B # bs"


definition empty_dir :: "gotime \<Rightarrow> world" where
  "empty_dir t =
     \<lparr>dir = [], handles = [], next_fd = 3, now = t, faults = (\<lambda>p. None),
      short_write = None, gzip = stored\<rparr>"

definition busy_dir :: "gotime \<Rightarrow> world" where
  "busy_dir t =
     \<lparr>dir = [(''app.log'', File 420 ''0123456789''), (''x.txt'', File 420 ''note'')],
      handles = [], next_fd = 3, now = t, faults = (\<lambda>p. None),
      short_write = None, gzip = stored\<rparr>"

definition app_writer :: "int \<Rightarrow> int \<Rightarrow> bool \<Rightarrow> RotateWriter" where
  "app_writer sz files gz =
     \<lparr>filename = ''app.log'', MaxSize = sz, MaxFiles = files, Compress = gz,
      fp = None, fsize = 0\<rparr>"

definition log_dir :: "gotime \<Rightarrow> world" where
  "log_dir t =
     \<lparr>dir = [(''app.log'', File 420 ''0123456789'')],
      handles = [], next_fd = 3, now = t, faults = (\<lambda>p. None),
      short_write = None, gzip = stored\<rparr>"






section \<open>Runs of a writer and what is read back\<close>
















section \<open>Facts about the constants and the primitives\<close>

lemma MaxInt_value: "MaxInt = 9223372036854775807"
  unfolding MaxInt_def by code_simp

lemma MaxInt_largest: "sint (x :: 64 word) \<le> MaxInt"
  using sint_lt [of x] by (simp add: MaxInt_value)

lemma Base_app_log: "Base ''app.log'' = ''app.log''"
  by (simp add: Base_def)

lemma Format_at_cest: "Format at_cest = ''2024-05-06T09:08:09+02:00''"
  by code_simp

lemma Format_at_utc: "Format at_utc = ''2024-05-06T07:08:09Z''"
  by code_simp

lemma Parse_at_cest: "Parse ''2024-05-06T09:08:09+02:00'' = Some at_cest"
  by code_simp

lemmas prim_defs =
  os_Stat_def os_Create_def os_OpenFile_def file_Close_def file_Write_def append_to_def
  os_Rename_def remove_entry_def os_Remove_def ioutil_ReadDir_def ioutil_WriteFile_def
  os_Open_def reader_Read_def new_handle_def retarget_def unlink_def

lemma NewRotateWriter_empty_dir:
  "NewRotateWriter ''app.log'' (empty_dir t) =
     (Some \<lparr>filename = ''app.log'', MaxSize = 10485760, MaxFiles = 9223372036854775807,
             Compress = True, fp = Some 3, fsize = 0\<rparr>,
      \<lparr>dir = [(''app.log'', File 438 [])], handles = [(3, Some ''app.log'')], next_fd = 4,
       now = t, faults = (\<lambda>p. None), short_write = None, gzip = stored\<rparr>)"
  by (simp add: NewRotateWriter_def Open_def open'_def prim_defs Base_app_log empty_dir_def
      DefaultMaxSize_def DefaultMaxFiles_def MB_def MaxInt_value)

section \<open>Close\<close>

text \<open>
  C6. Close on a writer that holds an open handle is claimed to release the handle and
  never to touch an absent resource. Evaluated on the writer that
  \<^verbatim>\<open>NewRotateWriter("app.log")\<close> returns in an empty directory: Close sets the
  field to nil first and then calls \<^verbatim>\<open>Close\<close> on the nil field, so it returns
  \<^verbatim>\<open>os.ErrInvalid\<close> and the directory and the table of open handles are what they
  were: descriptor 3 is still open.
\<close>

theorem Close_leaves_handle_open:
  "(case NewRotateWriter ''app.log'' (empty_dir at_cest) of
      (Some w, s) \<Rightarrow>
        fp w = Some 3 \<and> handles s = [(3, Some ''app.log'')] \<and>
        Close w s = (Some ErrInvalid, w\<lparr>fp := None\<rparr>, s)
    | (None, s) \<Rightarrow> False)"
  by (simp only: NewRotateWriter_empty_dir) (simp add: Close_def close'_def file_Close_def)

lemma Close_closed_writer: "fp w = None \<Longrightarrow> Close w s = (None, w, s)"
  by (simp add: Close_def close'_def)

lemma Close_open_writer:
  "fp w = Some fd \<Longrightarrow> Close w s = (Some ErrInvalid, w\<lparr>fp := None\<rparr>, s)"
  by (simp add: Close_def close'_def file_Close_def)

section \<open>Open\<close>

text \<open>
  C9. At most one handle is claimed to be open for the path, and Open on an open writer
  never to leak the handle it held. Evaluated on \<^verbatim>\<open>NewRotateWriter("app.log")\<close>
  followed by \<^verbatim>\<open>Open()\<close>: the second open succeeds, the writer holds descriptor 4,
  and descriptor 3 is still open on the same file.
\<close>

theorem Open_twice_two_handles:
  "(case NewRotateWriter ''app.log'' (empty_dir at_cest) of
      (Some w, s) \<Rightarrow>
        (case Open w s of
           (err, w', s') \<Rightarrow>
             err = None \<and> fp w = Some 3 \<and> fp w' = Some 4 \<and>
             handles s' = [(3, Some ''app.log''), (4, Some ''app.log'')])
    | (None, s) \<Rightarrow> False)"
  by (simp only: NewRotateWriter_empty_dir) (simp add: Open_def open'_def prim_defs Base_app_log)

section \<open>Errors on the write path\<close>

text \<open>
  C7. Every file-system error on the write path is claimed to reach the caller of Write.
  Evaluated twice. First a closed writer in an empty directory where creating the file
  fails with error 13: the implicit open fails with that error, and Write returns 0 and
  \<^verbatim>\<open>os.ErrInvalid\<close>, the error of writing through the nil handle. Then an open
  writer over a file of 10 bytes with \<open>MaxSize = 5\<close>, where the rename fails with
  error 13: the rotation inside Write fails with that error, and Write again returns 0
  and \<^verbatim>\<open>os.ErrInvalid\<close>.
\<close>

theorem Write_drops_open_and_rotate_errors:
  "(let s = (empty_dir at_cest)\<lparr>faults := (\<lambda>p. None)(PCreate := Some (OSError 13))\<rparr>;
        w = app_writer 100 MaxInt False
    in fst (open' w s) = Some (OSError 13) \<and>
       (case Write w ''x'' s of
          Done ((n, err), w', s') \<Rightarrow> n = 0 \<and> err = Some ErrInvalid \<and> fp w' = None
        | Panic \<Rightarrow> False)) \<and>
   (let s = (busy_dir at_cest)\<lparr>faults := (\<lambda>p. None)(PRename := Some (OSError 13))\<rparr>
    in case Open (app_writer 5 MaxInt False) s of
         (oerr, w, s1) \<Rightarrow>
           oerr = None \<and> fp w = Some 3 \<and> fsize w = 10 \<and>
           (case rotate' w s1 of Done (rerr, w2, s2) \<Rightarrow> rerr = Some (OSError 13)
            | Panic \<Rightarrow> False) \<and>
           (case Write w ''x'' s1 of
              Done ((n, err), w', s') \<Rightarrow> n = 0 \<and> err = Some ErrInvalid \<and> fp w' = None
            | Panic \<Rightarrow> False))"
  by (simp add: Write_def write'_def rotate'_def Open_def open'_def prim_defs Base_app_log
      empty_dir_def busy_dir_def app_writer_def int64_def MaxInt_value)

section \<open>The scan of the retention sweep\<close>

text \<open>
  C5. An entry whose name holds no timestamp is claimed to be ignored, whatever its name
  or length, and never to make the sweep fault. Evaluated on the directory that holds
  \<^verbatim>\<open>app.log\<close> and \<^verbatim>\<open>x.txt\<close>, with \<open>MaxFiles = 1\<close>: the slice of the five
  characters of \<^verbatim>\<open>x.txt\<close> from 8 to 33 is out of range, the sweep panics, and so
  does the Rotate that runs it, after it has renamed the log file.
\<close>

theorem drain_short_name_panics:
  "drain (app_writer 100 1 False) (busy_dir at_cest) = Panic \<and>
   Rotate (app_writer 100 1 False) (busy_dir at_cest) = Panic"
  by (simp add: Rotate_def rotate'_def drain_def prim_defs Base_app_log busy_dir_def
      app_writer_def MaxInt_value Name_def IsDir_def TimeFmt_def Format_at_cest Parse_at_cest
      Let_def Base_def)

section \<open>Opening\<close>

lemma update_absent: "map_of al k = None \<Longrightarrow> AList.update k v al = al @ [(k, v)]"
  by (induction al) (auto split: if_splits)

lemma map_of_snoc_absent: "map_of al k = None \<Longrightarrow> map_of (al @ [(k, v)]) k = Some v"
  by (induction al) auto

lemma open'_keeps:
  "open' w s = (e, w', s') \<Longrightarrow>
     filename w' = filename w \<and> MaxSize w' = MaxSize w \<and> MaxFiles w' = MaxFiles w \<and>
     Compress w' = Compress w"
  by (auto simp: open'_def os_Create_def os_OpenFile_def new_handle_def
      split: option.splits node.splits prod.splits sum.splits)


lemma open'_ok:
  "open' w s = (None, w', s') \<Longrightarrow>
     \<exists>fd m d. fp w' = Some fd \<and> (fd, Some (Base (filename w))) \<in> set (handles s') \<and>
       os_Stat (filename w) s' = Some (File m d) \<and> fsize w' = int (length d)"
  by (auto simp: open'_def os_Stat_def os_Create_def os_OpenFile_def new_handle_def update_conv'
      split: option.splits node.splits prod.splits sum.splits)

lemma open'_creates:
  "os_Stat (filename w) s = None \<Longrightarrow> faults s PCreate = None \<Longrightarrow>
   open' w s =
     (None, w\<lparr>fp := Some (next_fd s), fsize := 0\<rparr>,
      s\<lparr>dir := dir s @ [(Base (filename w), File 438 [])],
        handles := handles s @ [(next_fd s, Some (Base (filename w)))],
        next_fd := Suc (next_fd s)\<rparr>)"
  by (simp add: open'_def os_Stat_def os_Create_def new_handle_def update_absent)

text \<open>
  C10. \<open>NewRotateWriter\<close> builds a writer with \<open>MaxSize = 10 * 2 ^ 20\<close>,
  \<open>MaxFiles = MaxInt\<close>, the largest value of a 64-bit int, and \<open>Compress = True\<close>,
  and opens the file at once. When it returns a writer, that writer has these fields and
  holds an open handle on the file, which exists, with the size counter at the file's
  length; when the open fails it returns nil and no error value. Where the file is
  absent and creating it does not fail, the writer is returned and the file exists,
  empty.
\<close>

theorem NewRotateWriter_defaults:
  "(case NewRotateWriter name s of
      (Some w, s') \<Rightarrow>
        filename w = name \<and> MaxSize w = 10 * 2 ^ 20 \<and> MaxFiles w = MaxInt \<and> Compress w \<and>
        (\<exists>fd m d. fp w = Some fd \<and> (fd, Some (Base name)) \<in> set (handles s') \<and>
           os_Stat name s' = Some (File m d) \<and> fsize w = int (length d)) \<and>
        Open \<lparr>filename = name, MaxSize = 10 * 2 ^ 20, MaxFiles = MaxInt, Compress = True,
               fp = None, fsize = 0\<rparr> s = (None, w, s')
    | (None, s') \<Rightarrow>
        (\<exists>err. fst (Open \<lparr>filename = name, MaxSize = 10 * 2 ^ 20, MaxFiles = MaxInt,
                          Compress = True, fp = None, fsize = 0\<rparr> s) = Some err)) \<and>
   (\<forall>x :: 64 word. sint x \<le> MaxInt) \<and>
   (os_Stat name s = None \<and> faults s PCreate = None \<longrightarrow>
      (\<exists>w s'. NewRotateWriter name s = (Some w, s') \<and> os_Stat name s' = Some (File 438 [])))"
proof -
  let ?w0 = "\<lparr>filename = name, MaxSize = 10 * 2 ^ 20, MaxFiles = MaxInt, Compress = True,
               fp = None, fsize = 0\<rparr>"
  have new: "NewRotateWriter name s =
      (case Open ?w0 s of (Some err, w', s') \<Rightarrow> (None, s') | (None, w', s') \<Rightarrow> (Some w', s'))"
    by (simp add: NewRotateWriter_def DefaultMaxSize_def DefaultMaxFiles_def MB_def)
  obtain e w1 s1 where o: "open' ?w0 s = (e, w1, s1)"
    by (cases "open' ?w0 s") auto
  have first: "(case NewRotateWriter name s of
      (Some w, s') \<Rightarrow>
        filename w = name \<and> MaxSize w = 10 * 2 ^ 20 \<and> MaxFiles w = MaxInt \<and> Compress w \<and>
        (\<exists>fd m d. fp w = Some fd \<and> (fd, Some (Base name)) \<in> set (handles s') \<and>
           os_Stat name s' = Some (File m d) \<and> fsize w = int (length d)) \<and>
        Open ?w0 s = (None, w, s')
    | (None, s') \<Rightarrow> (\<exists>err. fst (Open ?w0 s) = Some err))"
  proof (cases e)
    case None
    with o open'_ok [of ?w0 s w1 s1] open'_keeps [of ?w0 s None w1 s1] show ?thesis
      by (simp add: new Open_def)
  next
    case (Some err)
    with o show ?thesis by (simp add: new Open_def)
  qed
  have third: "os_Stat name s = None \<and> faults s PCreate = None \<longrightarrow>
      (\<exists>w s'. NewRotateWriter name s = (Some w, s') \<and> os_Stat name s' = Some (File 438 []))"
    using open'_creates [of ?w0 s] by (auto simp: new Open_def os_Stat_def map_add_def)
  from first third show ?thesis using MaxInt_largest by blast
qed

theorem NewRotateWriter_defaults_witness:
  "os_Stat ''app.log'' (empty_dir at_cest) = None \<and>
   faults (empty_dir at_cest) PCreate = None \<and>
   (\<exists>w s'. NewRotateWriter ''app.log'' (empty_dir at_cest) = (Some w, s') \<and>
      os_Stat ''app.log'' s' = Some (File 438 []))"
  using NewRotateWriter_defaults [of "''app.log''" "empty_dir at_cest"]
  by (simp add: os_Stat_def empty_dir_def)

section \<open>Archive names\<close>

text \<open>
  C8. The timestamp of every archive name that rotation produces is claimed to be
  extracted and parsed back by the sweep. Evaluated at an instant in a zone of offset
  zero, which the layout prints with \<^verbatim>\<open>Z\<close> in 20 characters: a rotation with
  unbounded retention produces \<^verbatim>\<open>app.log.2024-05-06T07:08:09Z\<close>; the scan of the
  sweep slices 25 characters after the base name and the dot, which this name and its
  \<^verbatim>\<open>.gz\<close> form do not have, and panics; and a rotation with \<open>MaxFiles = 1\<close>
  panics on the archive it has just made.
\<close>

theorem utc_archive_name_panics:
  "valid_time at_utc \<and> Format at_utc = ''2024-05-06T07:08:09Z'' \<and>
   (case Rotate (app_writer 100 MaxInt False) (log_dir at_utc) of
      Done (err, w, s) \<Rightarrow>
        err = None \<and> map fst (dir s) = [''app.log.2024-05-06T07:08:09Z'', ''app.log'']
    | Panic \<Rightarrow> False) \<and>
   collect (app_writer 100 1 False) [(''app.log.2024-05-06T07:08:09Z'', False)] = Panic \<and>
   collect (app_writer 100 1 True) [(''app.log.2024-05-06T07:08:09Z.gz'', False)] = Panic \<and>
   Rotate (app_writer 100 1 False) (log_dir at_utc) = Panic"
proof -
  have v: "valid_time at_utc"
    by (simp add: valid_time_def at_utc_def days_in_def)
  have r: "(case Rotate (app_writer 100 MaxInt False) (log_dir at_utc) of
      Done (err, w, s) \<Rightarrow>
        err = None \<and> map fst (dir s) = [''app.log.2024-05-06T07:08:09Z'', ''app.log'']
    | Panic \<Rightarrow> False) \<and>
   collect (app_writer 100 1 False) [(''app.log.2024-05-06T07:08:09Z'', False)] = Panic \<and>
   collect (app_writer 100 1 True) [(''app.log.2024-05-06T07:08:09Z.gz'', False)] = Panic \<and>
   Rotate (app_writer 100 1 False) (log_dir at_utc) = Panic"
    by (simp add: Rotate_def rotate'_def drain_def open'_def prim_defs log_dir_def
        app_writer_def MaxInt_value Name_def IsDir_def TimeFmt_def Format_at_utc
        Let_def Base_def)
  from v r show ?thesis by (simp add: Format_at_utc)
qed

section \<open>The retention policy\<close>














section \<open>Rotation\<close>

lemma digit_not_slash: "d < 10 \<Longrightarrow> digit d \<noteq> CHR ''/''"
proof
  assume d: "d < 10" and e: "digit d = CHR ''/''"
  from e have "(of_char (digit d) :: nat) = of_char (CHR ''/'')" by simp
  with d show False by (simp add: digit_def)
qed

lemma pad2_no_slash: "CHR ''/'' \<notin> set (pad2 n)"
  using digit_not_slash [of "n div 10 mod 10"] digit_not_slash [of "n mod 10"]
  by (auto simp: pad2_def)

lemma pad4_no_slash: "CHR ''/'' \<notin> set (pad4 n)"
  using digit_not_slash [of "n div 1000 mod 10"] digit_not_slash [of "n div 100 mod 10"]
    digit_not_slash [of "n div 10 mod 10"] digit_not_slash [of "n mod 10"]
  by (auto simp: pad4_def)

lemma Format_no_slash: "CHR ''/'' \<notin> set (Format t)"
  using pad2_no_slash pad4_no_slash by (auto simp: Format_def zone_str_def)

lemma Base_append:
  assumes "CHR ''/'' \<notin> set q"
  shows "Base (p @ q) = Base p @ q"
proof -
  have "takeWhile (\<lambda>c. c \<noteq> CHR ''/'') (rev q @ rev p) =
          rev q @ takeWhile (\<lambda>c. c \<noteq> CHR ''/'') (rev p)"
    by (rule takeWhile_append2) (use assms in auto)
  then show ?thesis by (simp add: Base_def)
qed

lemma Base_rot: "Base (p @ CHR ''.'' # Format t) = Base p @ CHR ''.'' # Format t"
  using Base_append [of "''.'' @ Format t" p] Format_no_slash [of t] by simp


lemma Base_rot_neq: "Base (p @ CHR ''.'' # Format t) \<noteq> Base p"
  by (simp add: Base_rot)

























section \<open>Write\<close>


lemma open'_existing:
  "os_Stat (filename w) s = Some (File m d) \<Longrightarrow> faults s POpenFile = None \<Longrightarrow>
     open' w s =
       (None, w\<lparr>fp := Some (next_fd s), fsize := int (length d)\<rparr>,
        s\<lparr>handles := handles s @ [(next_fd s, Some (Base (filename w)))],
          next_fd := Suc (next_fd s)\<rparr>)"
  by (simp add: open'_def os_Stat_def os_OpenFile_def new_handle_def)

lemma Open_keeps_old_handle:
  assumes "fp w = Some fd" "os_Stat (filename w) s = Some (File m d)" "faults s POpenFile = None"
  shows "Open w s =
     (None, w\<lparr>fp := Some (next_fd s), fsize := int (length d)\<rparr>,
      s\<lparr>handles := handles s @ [(next_fd s, Some (Base (filename w)))],
        next_fd := Suc (next_fd s)\<rparr>)"
  using open'_existing [OF assms(2,3)] by (simp add: Open_def)






section \<open>The layout prints what it parses\<close>

lemma digit_val_digit: "d < 10 \<Longrightarrow> digit_val (digit d) = Some d"
  by (simp add: digit_val_def digit_def)

lemma two_digits: "10 * (n div 10 mod 10) + n mod 10 = (n mod 100 :: nat)"
  using mod_mult2_eq [of n 10 10] by simp

lemma num2_pad2: "n < 100 \<Longrightarrow> num2 (pad2 n) = Some n"
  using two_digits [of n] by (simp add: pad2_def digit_val_digit)

lemma num4_pad4:
  assumes "n \<le> 9999"
  shows "num4 (pad4 n) = Some n"
proof -
  have a: "n div 100 < 100" using assms by arith
  have b: "n div 100 div 10 = n div 1000" by (simp add: div_mult2_eq)
  have "10 * (n div 100 div 10 mod 10) + n div 100 mod 10 = n div 100 mod 100"
    by (rule two_digits)
  then have hi: "10 * (n div 1000 mod 10) + n div 100 mod 10 = n div 100"
    unfolding b using a by (simp only: mod_less)
  have lo: "10 * (n div 10 mod 10) + n mod 10 = n mod 100"
    by (rule two_digits)
  have "100 * (n div 100) + n mod 100 = n" by simp
  with hi lo show ?thesis by (simp add: pad4_def digit_val_digit)
qed


lemma pad2_shape: "\<exists>a b. pad2 n = [a, b]"
  by (simp add: pad2_def)

lemma pad4_shape: "\<exists>a b c d. pad4 n = [a, b, c, d]"
  by (simp add: pad4_def)

lemma parse_zone_offset:
  assumes "a < 1440" "0 < a"
    and "sg = CHR ''-'' \<or> sg = CHR ''+''"
  shows "parse_zone (sg # pad2 (a div 60) @ '':'' @ pad2 (a mod 60)) =
           Some ((if sg = CHR ''-'' then - 1 else 1) * int a)"
proof -
  have h: "a div 60 < 100" "a mod 60 < 100" "a div 60 < 24" using assms by auto
  obtain x y where p1: "pad2 (a div 60) = [x, y]" using pad2_shape by blast
  obtain u v where p2: "pad2 (a mod 60) = [u, v]" using pad2_shape by blast
  from num2_pad2 [OF h(1)] p1 have n1: "num2 [x, y] = Some (a div 60)" by simp
  from num2_pad2 [OF h(2)] p2 have n2: "num2 [u, v] = Some (a mod 60)" by simp
  have v: "a div 60 * 60 + a mod 60 = a" by simp
  show ?thesis
    unfolding p1 p2 using assms(3) h(3) n1 n2 v
    by (auto simp del: num2.simps)
qed

lemma parse_zone_str:
  assumes "- 1440 < z" "z < 1440"
  shows "parse_zone (zone_str z) = Some z"
proof (cases "z = 0")
  case True
  then show ?thesis by (simp add: zone_str_def)
next
  case False
  show ?thesis
  proof (cases "z < 0")
    case True
    with assms parse_zone_offset [of "nat (- z)" "CHR ''-''"] show ?thesis
      by (simp add: zone_str_def)
  next
    case f: False
    with False assms parse_zone_offset [of "nat z" "CHR ''+''"] show ?thesis
      by (simp add: zone_str_def)
  qed
qed

lemma zone_str_length: "length (zone_str z) = (if z = 0 then 1 else 6)"
  by (simp add: zone_str_def pad2_def)


lemma Format_shape:
  "\<exists>y1 y2 y3 y4 m1 m2 d1 d2 h1 h2 i1 i2 s1 s2.
     pad4 (tyear t) = [y1, y2, y3, y4] \<and> pad2 (tmonth t) = [m1, m2] \<and>
     pad2 (tday t) = [d1, d2] \<and> pad2 (thour t) = [h1, h2] \<and> pad2 (tmin t) = [i1, i2] \<and>
     pad2 (tsec t) = [s1, s2] \<and>
     (\<forall>sfx. Format t @ sfx =
        [y1, y2, y3, y4, CHR ''-'', m1, m2, CHR ''-'', d1, d2, CHR ''T'',
         h1, h2, CHR '':'', i1, i2, CHR '':'', s1, s2] @ zone_str (tzone t) @ sfx)"
  by (simp add: Format_def pad2_def pad4_def)

lemma Parse_Format_suffix:
  assumes "valid_time t"
  shows "Parse (Format t @ sfx) =
           (case parse_zone (zone_str (tzone t) @ sfx) of None \<Rightarrow> None | Some z \<Rightarrow>
              (if valid_time (t\<lparr>tzone := z\<rparr>) then Some (t\<lparr>tzone := z\<rparr>) else None))"
proof -
  from Format_shape [of t]
  obtain y1 y2 y3 y4 m1 m2 d1 d2 h1 h2 i1 i2 s1 s2 where
    p: "pad4 (tyear t) = [y1, y2, y3, y4]" "pad2 (tmonth t) = [m1, m2]"
       "pad2 (tday t) = [d1, d2]" "pad2 (thour t) = [h1, h2]" "pad2 (tmin t) = [i1, i2]"
       "pad2 (tsec t) = [s1, s2]"
    and f: "Format t @ sfx =
        [y1, y2, y3, y4, CHR ''-'', m1, m2, CHR ''-'', d1, d2, CHR ''T'',
         h1, h2, CHR '':'', i1, i2, CHR '':'', s1, s2] @ zone_str (tzone t) @ sfx"
    by blast
  from assms have b: "tyear t \<le> 9999" "tmonth t < 100" "tday t < 100" "thour t < 100"
    "tmin t < 100" "tsec t < 100"
    by (auto simp: valid_time_def days_in_def split: if_splits)
  have z: "zone_str (tzone t) \<noteq> []" by (simp add: zone_str_def)
  have n: "num4 [y1, y2, y3, y4] = Some (tyear t)" "num2 [m1, m2] = Some (tmonth t)"
    "num2 [d1, d2] = Some (tday t)" "num2 [h1, h2] = Some (thour t)"
    "num2 [i1, i2] = Some (tmin t)" "num2 [s1, s2] = Some (tsec t)"
    using num4_pad4 [OF b(1)] num2_pad2 [OF b(2)] num2_pad2 [OF b(3)] num2_pad2 [OF b(4)]
      num2_pad2 [OF b(5)] num2_pad2 [OF b(6)] p by simp_all
  have r: "\<And>z. \<lparr>tyear = tyear t, tmonth = tmonth t, tday = tday t, thour = thour t,
      tmin = tmin t, tsec = tsec t, tzone = z\<rparr> = t\<lparr>tzone := z\<rparr>"
    by (cases t) simp
  show ?thesis
    unfolding Parse_def f using z
    by (simp add: n r Let_def del: num2.simps num4.simps split: option.splits)
qed

lemma Parse_Format: "valid_time t \<Longrightarrow> Parse (Format t) = Some t"
  using Parse_Format_suffix [of t "[]"] by (simp add: parse_zone_str valid_time_def)


text \<open>
  With an offset other than zero the timestamp has the 25 characters that the scan
  slices, and the scan recognises the archive, compressed or not.
\<close>

lemma Format_length: "length (Format t) = (if tzone t = 0 then 20 else 25)"
  by (simp add: Format_def pad2_def pad4_def zone_str_def)

lemma collect_offset_archive:
  assumes v: "valid_time t" and z: "tzone t \<noteq> 0"
    and n: "name = Base (filename w) @ ''.'' @ Format t @ sfx" and d: "name \<noteq> filename w"
  shows "collect w [(name, False)] = Done [(t, (name, False))]"
proof -
  from z have l: "length (Format t) = 25" by (simp add: Format_length)
  then have "take 25 (drop (Suc (length (Base (filename w)))) name) = Format t"
    by (simp add: n)
  with Parse_Format [OF v] l d show ?thesis
    by (simp add: Name_def IsDir_def TimeFmt_def n)
qed

section \<open>No data is lost between rotations\<close>














































end
